theory Spec2Isabelle
  imports Main
begin

section \<open>The GX agent: data model\<close>

text \<open>
  A shallow embedding of \<^verbatim>\<open>great_expectations/agent/agent.py\<close>. The agent keeps one
  subscription to a message broker, hands every delivered event to a thread pool with a
  single worker, and asks the broker to redeliver an event that arrives while the
  previous one is still being handled.

  Exceptions are values. The classes are the ones \<^verbatim>\<open>agent.py\<close> names, the validation
  error of the pydantic dataclass \<^verbatim>\<open>GXAgentConfig\<close>, and \<open>OtherError\<close> for every other
  class. The classes are taken to be unrelated by subclassing, as the separate
  \<^verbatim>\<open>except\<close> clauses of \<^verbatim>\<open>_listen\<close> treat them.
\<close>

datatype exn =
    KeyboardInterrupt
  | SubscriberError string
  | ClientError string
  | RequeueMessageError
  | GXAgentError string
  | ValidationError
  | OtherError string

text \<open>
  What the agent does to the outside world, in order: the lines it prints and the calls
  it makes on its collaborators.
\<close>

datatype effect =
    Print string
  | PrintExn exn
  | GetContext
  | NewExecutor nat
  | NewClient string
  | NewSubscriber
  | Consume string
  | CloseCall

subsection \<open>The thread pool and its futures\<close>

text \<open>
  \<^verbatim>\<open>concurrent.futures\<close>, as far as the agent uses it. \<^verbatim>\<open>submit\<close> creates a future in
  state \<open>PENDING\<close> and queues the call; a worker thread moves it to \<open>RUNNING\<close>, calls the
  function, and stores the outcome in the future, which is then \<open>FINISHED\<close>. The agent
  never cancels a future, so the cancelled states do not occur.

  The agent and the worker thread share the future object: the executor's list of work
  items is the store, and a handle is an index into it. The agent only ever holds a handle
  that \<open>submit\<close> returned; \<open>future_done\<close> reads a handle outside the store as not
  done.
\<close>

datatype future_state = PENDING | RUNNING | FINISHED

record 'e work_item =
  wi_event :: 'e
  wi_correlation_id :: string
  wi_state :: future_state
  wi_exception :: "exn option"

record 'e thread_pool_executor =
  max_workers :: nat
  work_items :: "'e work_item list"

definition future_done :: "'e thread_pool_executor \<Rightarrow> nat \<Rightarrow> bool" where
  "future_done ex h =
     (h < length (work_items ex) \<and> wi_state (work_items ex ! h) = FINISHED)"

definition new_work_item :: "'e \<Rightarrow> string \<Rightarrow> 'e work_item" where
  "new_work_item ev cid =
     \<lparr>wi_event = ev, wi_correlation_id = cid, wi_state = PENDING, wi_exception = None\<rparr>"

definition submit ::
  "'e thread_pool_executor \<Rightarrow> 'e \<Rightarrow> string \<Rightarrow> nat \<times> 'e thread_pool_executor" where
  "submit ex ev cid =
     (length (work_items ex),
      ex\<lparr>work_items := work_items ex @ [new_work_item ev cid]\<rparr>)"

subsection \<open>The agent\<close>

record gx_agent_config =
  organization_id :: string
  broker_url :: string

record ('c, 'e) gx_agent =
  agent_config :: gx_agent_config
  agent_context :: 'c
  executor :: "'e thread_pool_executor"
  current_task :: "nat option"

text \<open>
  \<^verbatim>\<open>EventHandler(context=...).handle_event(event=..., correlation_id=...)\<close> is an external
  collaborator: a parameter that says, for a context, an event and a correlation
  identifier, whether the call returns (\<open>None\<close>) or raises.
\<close>

type_synonym ('c, 'e) event_handler = "'c \<Rightarrow> 'e \<Rightarrow> string \<Rightarrow> exn option"

section \<open>Configuration and construction\<close>

text \<open>
  \<^verbatim>\<open>_get_config_from_env\<close>. The environment is a map from names to values. The
  dataclass validates \<^verbatim>\<open>broker_url\<close> as an \<^verbatim>\<open>AmqpDsn\<close>; that validator is the
  parameter \<open>amqp_dsn\<close>.
\<close>

definition get_config_from_env ::
  "(string \<Rightarrow> bool) \<Rightarrow> (string \<rightharpoonup> string) \<Rightarrow> exn + gx_agent_config" where
  "get_config_from_env amqp_dsn environ =
     (case environ ''BROKER_URL'' of
        None \<Rightarrow> Inl (GXAgentError ''Missing required environment variable: BROKER_URL'')
      | Some url \<Rightarrow>
          (case environ ''GE_CLOUD_ORGANIZATION_ID'' of
             None \<Rightarrow>
               Inl (GXAgentError
                 ''Missing required environment variable: GE_CLOUD_ORGANIZATION_ID'')
           | Some org_id \<Rightarrow>
               if amqp_dsn url
               then Inr \<lparr>organization_id = org_id, broker_url = url\<rparr>
               else Inl ValidationError))"

text \<open>
  \<^verbatim>\<open>GXAgent.__init__\<close>. \<open>get_context\<close> is the outcome of
  \<^verbatim>\<open>get_context(cloud_mode=True)\<close>: the context, or the exception it raises.
\<close>

definition init ::
  "(string \<Rightarrow> bool) \<Rightarrow> (string \<rightharpoonup> string) \<Rightarrow> exn + 'c \<Rightarrow>
   (exn + ('c, 'e) gx_agent) \<times> effect list" where
  "init amqp_dsn environ get_context =
     (case get_config_from_env amqp_dsn environ of
        Inl e \<Rightarrow> (Inl e, [Print ''Initializing GX-Agent''])
      | Inr cfg \<Rightarrow>
          (case get_context of
             Inl e \<Rightarrow>
               (Inl e,
                [Print ''Initializing GX-Agent'',
                 Print ''Loading a DataContext - this might take a moment.'',
                 GetContext])
           | Inr ctx \<Rightarrow>
               (Inr \<lparr>agent_config = cfg, agent_context = ctx,
                     executor = \<lparr>max_workers = 1, work_items = []\<rparr>,
                     current_task = None\<rparr>,
                [Print ''Initializing GX-Agent'',
                 Print ''Loading a DataContext - this might take a moment.'',
                 GetContext,
                 Print ''DataContext is ready.'',
                 NewExecutor 1])))"

section \<open>Dispatch\<close>

text \<open>\<^verbatim>\<open>_can_accept_new_task\<close>.\<close>

definition can_accept_new_task :: "('c, 'e) gx_agent \<Rightarrow> bool" where
  "can_accept_new_task a =
     (case current_task a of
        None \<Rightarrow> True
      | Some h \<Rightarrow> future_done (executor a) h)"

text \<open>
  The assignment that ends \<^verbatim>\<open>_handle_event_as_thread\<close>: submit the call of
  \<^verbatim>\<open>_handle_event\<close> and keep the future.
\<close>

definition submit_task :: "('c, 'e) gx_agent \<Rightarrow> 'e \<Rightarrow> string \<Rightarrow> ('c, 'e) gx_agent" where
  "submit_task a ev cid =
     (let (h, ex) = submit (executor a) ev cid
      in a\<lparr>executor := ex, current_task := Some h\<rparr>)"

text \<open>\<^verbatim>\<open>_handle_event_as_thread\<close>: the result is the exception raised, or \<open>()\<close>.\<close>

definition handle_event_as_thread ::
  "('c, 'e) gx_agent \<Rightarrow> 'e \<Rightarrow> string \<Rightarrow> (exn + unit) \<times> ('c, 'e) gx_agent" where
  "handle_event_as_thread a ev cid =
     (if can_accept_new_task a \<noteq> True then (Inl RequeueMessageError, a)
      else (Inr (), submit_task a ev cid))"

text \<open>\<^verbatim>\<open>_handle_event\<close>, the function the worker runs.\<close>

definition handle_event ::
  "('c, 'e) event_handler \<Rightarrow> ('c, 'e) gx_agent \<Rightarrow> 'e \<Rightarrow> string \<Rightarrow> exn option" where
  "handle_event handler a ev cid = handler (agent_context a) ev cid"

text \<open>
  Modelled from the spec: the subscriber's reaction to the callback's result, which is in
  \<^verbatim>\<open>message_service/subscriber.py\<close>. The spec's callback contract: the callback is
  invoked once per delivered message and may raise the requeue signal to request
  redelivery instead of acknowledgment.
\<close>

datatype delivery_reaction = Acknowledge | Redeliver | Propagate exn

definition subscriber_reaction :: "exn + unit \<Rightarrow> delivery_reaction" where
  "subscriber_reaction r =
     (case r of
        Inr _ \<Rightarrow> Acknowledge
      | Inl e \<Rightarrow> if e = RequeueMessageError then Redeliver else Propagate e)"

section \<open>The worker thread\<close>

text \<open>
  The pool's worker threads take the queued calls in submission order: a pending work
  item starts while fewer than \<open>max_workers\<close> items are running. A running item finishes
  with the outcome of \<^verbatim>\<open>_handle_event\<close>, stored in its future.
\<close>

definition running_count :: "'e thread_pool_executor \<Rightarrow> nat" where
  "running_count ex = length (filter (\<lambda>w. wi_state w = RUNNING) (work_items ex))"

definition outstanding_count :: "'e thread_pool_executor \<Rightarrow> nat" where
  "outstanding_count ex = length (filter (\<lambda>w. wi_state w \<noteq> FINISHED) (work_items ex))"

fun first_pending :: "'e work_item list \<Rightarrow> nat option" where
  "first_pending [] = None"
| "first_pending (w # ws) =
     (if wi_state w = PENDING then Some 0 else map_option Suc (first_pending ws))"

definition worker_start :: "'e thread_pool_executor \<Rightarrow> 'e thread_pool_executor" where
  "worker_start ex =
     (if running_count ex < max_workers ex
      then (case first_pending (work_items ex) of
              None \<Rightarrow> ex
            | Some i \<Rightarrow>
                ex\<lparr>work_items :=
                     (work_items ex)[i := (work_items ex ! i)\<lparr>wi_state := RUNNING\<rparr>]\<rparr>)
      else ex)"

definition worker_finish ::
  "('c, 'e) event_handler \<Rightarrow> ('c, 'e) gx_agent \<Rightarrow> nat \<Rightarrow> ('c, 'e) gx_agent" where
  "worker_finish handler a i =
     (let ws = work_items (executor a)
      in if i < length ws \<and> wi_state (ws ! i) = RUNNING
         then a\<lparr>executor := (executor a)\<lparr>work_items :=
                ws[i := (ws ! i)\<lparr>wi_state := FINISHED,
                      wi_exception :=
                        handle_event handler a (wi_event (ws ! i))
                          (wi_correlation_id (ws ! i))\<rparr>]\<rparr>\<rparr>
         else a)"

datatype worker_action = Start | Finish nat

fun worker_step ::
  "('c, 'e) event_handler \<Rightarrow> worker_action \<Rightarrow> ('c, 'e) gx_agent \<Rightarrow> ('c, 'e) gx_agent" where
  "worker_step handler Start a = a\<lparr>executor := worker_start (executor a)\<rparr>"
| "worker_step handler (Finish i) a = worker_finish handler a i"

definition worker_steps ::
  "('c, 'e) event_handler \<Rightarrow> worker_action list \<Rightarrow> ('c, 'e) gx_agent \<Rightarrow>
   ('c, 'e) gx_agent" where
  "worker_steps handler ws a = fold (worker_step handler) ws a"

section \<open>The agent and its worker, interleaved\<close>

text \<open>
  The consumer thread runs \<^verbatim>\<open>_handle_event_as_thread\<close> for each delivered message while
  the worker thread runs. \<open>Deliver ev cid mid\<close> is one delivery: the admission check reads
  the state, the worker takes the steps \<open>mid\<close>, and then the callback either raises or
  submits. \<open>Worker w\<close> is a worker step between two deliveries. The worker never reads
  \<^verbatim>\<open>_current_task\<close>, so its steps commute with the assignment that follows
  \<^verbatim>\<open>submit\<close>, and the two are one step here.
\<close>

datatype 'e action = Deliver 'e string "worker_action list" | Worker worker_action

fun agent_step ::
  "('c, 'e) event_handler \<Rightarrow> 'e action \<Rightarrow> ('c, 'e) gx_agent \<Rightarrow> ('c, 'e) gx_agent" where
  "agent_step handler (Deliver ev cid mid) a =
     (if can_accept_new_task a \<noteq> True then worker_steps handler mid a
      else submit_task (worker_steps handler mid a) ev cid)"
| "agent_step handler (Worker w) a = worker_step handler w a"

definition run_trace ::
  "('c, 'e) event_handler \<Rightarrow> 'e action list \<Rightarrow> ('c, 'e) gx_agent \<Rightarrow> ('c, 'e) gx_agent" where
  "run_trace handler acts a = fold (agent_step handler) acts a"

section \<open>The connection lifecycle\<close>

text \<open>
  \<^verbatim>\<open>RabbitMQClient\<close> and \<^verbatim>\<open>Subscriber\<close> are external collaborators. A \<open>broker\<close> says how
  each of their calls ends in one run of the agent (\<open>None\<close>: the call returns; \<open>Some e\<close>:
  it raises \<open>e\<close>), and what is delivered while \<^verbatim>\<open>consume\<close> blocks.
\<close>

datatype client = RabbitMQClient string

datatype subscriber = Subscriber client

record 'e broker =
  client_outcome :: "exn option"
  subscriber_outcome :: "exn option"
  consume_script :: "'e action list"
  consume_outcome :: "exn option"
  close_outcome :: "exn option"

fun is_SubscriberError :: "exn \<Rightarrow> bool" where
  "is_SubscriberError (SubscriberError m) = True"
| "is_SubscriberError e = False"

fun is_ClientError :: "exn \<Rightarrow> bool" where
  "is_ClientError (ClientError m) = True"
| "is_ClientError e = False"

text \<open>
  \<^verbatim>\<open>_close_subscriber\<close>, given how \<^verbatim>\<open>subscriber.close()\<close> ends. An exception that the
  \<^verbatim>\<open>except SubscriberError\<close> clause does not match leaves the function.
\<close>

definition close_subscriber ::
  "exn option \<Rightarrow> subscriber option \<Rightarrow> (exn + unit) \<times> effect list" where
  "close_subscriber closing sub =
     (case sub of
        None \<Rightarrow> (Inr (), [])
      | Some s \<Rightarrow>
          (case closing of
             None \<Rightarrow> (Inr (), [CloseCall])
           | Some e \<Rightarrow>
               if is_SubscriberError e
               then (Inr (),
                     [CloseCall,
                      Print ''Subscriber encountered an error while closing:'',
                      PrintExn e])
               else (Inl e, [CloseCall])))"

text \<open>
  The \<^verbatim>\<open>try\<close> block of \<^verbatim>\<open>_listen\<close>: the exception that leaves it (if any), the value of
  \<^verbatim>\<open>subscriber\<close> at that point, the agent, and the effects.
\<close>

definition listen_try ::
  "('c, 'e) event_handler \<Rightarrow> 'e broker \<Rightarrow> ('c, 'e) gx_agent \<Rightarrow>
   exn option \<times> subscriber option \<times> ('c, 'e) gx_agent \<times> effect list" where
  "listen_try handler br a =
     (let url = broker_url (agent_config a)
      in case client_outcome br of
           Some e \<Rightarrow> (Some e, None, a, [NewClient url])
         | None \<Rightarrow>
             (case subscriber_outcome br of
                Some e \<Rightarrow> (Some e, None, a, [NewClient url, NewSubscriber])
              | None \<Rightarrow>
                  (consume_outcome br,
                   Some (Subscriber (RabbitMQClient url)),
                   run_trace handler (consume_script br) a,
                   [NewClient url, NewSubscriber, Print ''GX-Agent is ready.'',
                    Consume (organization_id (agent_config a))])))"

text \<open>
  The \<^verbatim>\<open>except\<close> clauses of \<^verbatim>\<open>_listen\<close>: the exception still pending after them, and
  what they print.
\<close>

definition listen_except :: "exn option \<Rightarrow> exn option \<times> effect list" where
  "listen_except raised =
     (case raised of
        None \<Rightarrow> (None, [])
      | Some e \<Rightarrow>
          if e = KeyboardInterrupt then (None, [Print ''Received request to shutdown.''])
          else if is_SubscriberError e \<or> is_ClientError e
          then (None,
                [Print ''Connection to GX Cloud has encountered an error.'',
                 Print ''Please restart the agent and try your action again.'',
                 PrintExn e])
          else (Some e, []))"

text \<open>
  \<^verbatim>\<open>_listen\<close>. The \<^verbatim>\<open>finally\<close> clause runs last; an exception that leaves it replaces
  the pending one, as in Python.
\<close>

definition listen ::
  "('c, 'e) event_handler \<Rightarrow> 'e broker \<Rightarrow> ('c, 'e) gx_agent \<Rightarrow>
   (exn + unit) \<times> ('c, 'e) gx_agent \<times> effect list" where
  "listen handler br a =
     (let (raised, sub, a', eff_try) = listen_try handler br a;
          (pending, eff_except) = listen_except raised;
          (closed, eff_finally) = close_subscriber (close_outcome br) sub
      in (case closed of
            Inl e \<Rightarrow> Inl e
          | Inr _ \<Rightarrow> (case pending of Some e \<Rightarrow> Inl e | None \<Rightarrow> Inr ()),
          a', eff_try @ eff_except @ eff_finally))"

text \<open>\<^verbatim>\<open>GXAgent.run\<close>.\<close>

definition run ::
  "('c, 'e) event_handler \<Rightarrow> 'e broker \<Rightarrow> ('c, 'e) gx_agent \<Rightarrow>
   (exn + unit) \<times> ('c, 'e) gx_agent \<times> effect list" where
  "run handler br a =
     (let (r, a', eff) = listen handler br a
      in case r of
           Inl e \<Rightarrow> (Inl e, a', Print ''Opening connection to GX Cloud'' # eff)
         | Inr _ \<Rightarrow>
             (Inr (), a',
              Print ''Opening connection to GX Cloud'' # eff
                @ [Print ''Connection to GX Cloud has been closed.'']))"

definition close_calls :: "effect list \<Rightarrow> nat" where
  "close_calls eff = length (filter (\<lambda>x. x = CloseCall) eff)"

section \<open>The invariant of the execution slot\<close>

text \<open>
  The pool has one worker, and every work item that is not finished is the one the agent
  holds in \<^verbatim>\<open>_current_task\<close>.
\<close>

definition slot_invariant :: "('c, 'e) gx_agent \<Rightarrow> bool" where
  "slot_invariant a =
     (max_workers (executor a) = 1 \<and>
      (\<forall>i < length (work_items (executor a)).
         wi_state (work_items (executor a) ! i) \<noteq> FINISHED \<longrightarrow> current_task a = Some i))"

section \<open>Concrete agents, handlers and brokers\<close>

definition example_environ :: "string \<rightharpoonup> string" where
  "example_environ =
     [''BROKER_URL'' \<mapsto> ''amqp://broker'', ''GE_CLOUD_ORGANIZATION_ID'' \<mapsto> ''org'']"

definition example_init_effects :: "effect list" where
  "example_init_effects =
     [Print ''Initializing GX-Agent'',
      Print ''Loading a DataContext - this might take a moment.'',
      GetContext,
      Print ''DataContext is ready.'',
      NewExecutor 1]"

definition example_agent :: "(string, string) gx_agent" where
  "example_agent =
     \<lparr>agent_config = \<lparr>organization_id = ''org'', broker_url = ''amqp://broker''\<rparr>,
      agent_context = ''ctx'',
      executor = \<lparr>max_workers = 1, work_items = []\<rparr>,
      current_task = None\<rparr>"

text \<open>A handler that fails on the event \<open>''bad''\<close> and returns on every other one.\<close>

definition example_handler :: "(string, string) event_handler" where
  "example_handler ctx ev cid =
     (if ev = ''bad'' then Some (OtherError ''handler failed'') else None)"

text \<open>An agent whose worker is running the event \<open>''bad''\<close>.\<close>

definition busy_agent :: "(string, string) gx_agent" where
  "busy_agent =
     example_agent
       \<lparr>executor :=
          \<lparr>max_workers = 1,
           work_items =
             [\<lparr>wi_event = ''bad'', wi_correlation_id = ''c1'', wi_state = RUNNING,
               wi_exception = None\<rparr>]\<rparr>,
        current_task := Some 0\<rparr>"

text \<open>
  Three deliveries: the first is admitted and starts, the second arrives while it runs,
  the third after it has failed.
\<close>

definition example_trace :: "string action list" where
  "example_trace =
     [Deliver ''bad'' ''c1'' [], Worker Start, Deliver ''e2'' ''c2'' [],
      Worker (Finish 0), Deliver ''e3'' ''c3'' [Start]]"

text \<open>A run that is interrupted while consuming, and whose close call fails.\<close>

definition example_broker :: "string broker" where
  "example_broker =
     \<lparr>client_outcome = None, subscriber_outcome = None,
      consume_script = example_trace,
      consume_outcome = Some KeyboardInterrupt,
      close_outcome = Some (SubscriberError ''already closed'')\<rparr>"

text \<open>A run in which the broker refuses the connection.\<close>

definition refusing_broker :: "string broker" where
  "refusing_broker =
     \<lparr>client_outcome = Some (ClientError ''connection refused''),
      subscriber_outcome = None,
      consume_script = [],
      consume_outcome = None,
      close_outcome = None\<rparr>"

section \<open>Admission control\<close>

lemma example_init:
  "init (\<lambda>u. True) example_environ (Inr ''ctx'') = (Inr example_agent, example_init_effects)"
  by (simp add: init_def get_config_from_env_def example_environ_def example_agent_def
      example_init_effects_def)

lemma busy_agent_slot:
  "current_task busy_agent = Some 0"
  "work_items (executor busy_agent) =
     [\<lparr>wi_event = ''bad'', wi_correlation_id = ''c1'', wi_state = RUNNING,
       wi_exception = None\<rparr>]"
  "agent_context busy_agent = ''ctx''"
  by (simp_all add: busy_agent_def example_agent_def)

text \<open>
  C2. While the slot is busy (the agent holds a future that is not done), the callback
  raises the requeue signal and leaves the agent as it was: the held handle and the
  executor's work items are unchanged, so nothing was submitted.
\<close>

theorem busy_dispatch_rejected_unchanged:
  assumes "current_task a = Some h" and "\<not> future_done (executor a) h"
  shows "handle_event_as_thread a ev cid = (Inl RequeueMessageError, a)"
  using assms by (simp add: handle_event_as_thread_def can_accept_new_task_def)

theorem busy_dispatch_rejected_unchanged_witness:
  "current_task busy_agent = Some 0 \<and> \<not> future_done (executor busy_agent) 0 \<and>
   handle_event_as_thread busy_agent ''e2'' ''c2'' = (Inl RequeueMessageError, busy_agent)"
proof -
  have busy: "\<not> future_done (executor busy_agent) 0"
    by (simp add: future_done_def busy_agent_slot)
  from busy_agent_slot(1) busy
    busy_dispatch_rejected_unchanged [OF busy_agent_slot(1) busy, of "''e2''" "''c2''"]
  show ?thesis by simp
qed

text \<open>
  C3. The callback raises \<open>RequeueMessageError\<close> exactly when the admission check fails,
  and returns normally exactly when it succeeds. The subscriber therefore redelivers
  exactly the rejected events and acknowledges exactly the admitted ones: a rejected
  event leaves the agent unchanged and is signalled, an admitted one is submitted.
\<close>

theorem requeue_iff_admission_fails:
  "(fst (handle_event_as_thread a ev cid) = Inl RequeueMessageError)
     = (\<not> can_accept_new_task a)
   \<and> (fst (handle_event_as_thread a ev cid) = Inr ()) = can_accept_new_task a
   \<and> (subscriber_reaction (fst (handle_event_as_thread a ev cid)) = Redeliver)
       = (\<not> can_accept_new_task a)
   \<and> (subscriber_reaction (fst (handle_event_as_thread a ev cid)) = Acknowledge)
       = can_accept_new_task a
   \<and> snd (handle_event_as_thread a ev cid)
       = (if can_accept_new_task a then submit_task a ev cid else a)"
  by (simp add: handle_event_as_thread_def subscriber_reaction_def)

theorem requeue_iff_admission_fails_witness:
  "\<not> can_accept_new_task busy_agent
   \<and> fst (handle_event_as_thread busy_agent ''e2'' ''c2'') = Inl RequeueMessageError
   \<and> subscriber_reaction (fst (handle_event_as_thread busy_agent ''e2'' ''c2'')) = Redeliver
   \<and> can_accept_new_task example_agent
   \<and> fst (handle_event_as_thread example_agent ''e1'' ''c1'') = Inr ()
   \<and> subscriber_reaction (fst (handle_event_as_thread example_agent ''e1'' ''c1''))
       = Acknowledge"
proof -
  have busy: "\<not> can_accept_new_task busy_agent"
    by (simp add: can_accept_new_task_def future_done_def busy_agent_slot)
  have idle: "can_accept_new_task example_agent"
    by (simp add: can_accept_new_task_def example_agent_def)
  from busy idle
    requeue_iff_admission_fails [of busy_agent "''e2''" "''c2''"]
    requeue_iff_admission_fails [of example_agent "''e1''" "''c1''"]
  show ?thesis by (simp add: subscriber_reaction_def)
qed

text \<open>
  C5. When the admission check succeeds, the callback returns normally, the executor has
  exactly one more work item, pending, that holds the event and the correlation
  identifier, and the agent holds its handle. The call the worker makes for that work item
  is the handler's, on the agent's context, the event and the correlation identifier.
\<close>

theorem admitted_dispatch_submits_one_task:
  assumes "can_accept_new_task a"
  shows "handle_event_as_thread a ev cid =
           (Inr (),
            a\<lparr>executor := (executor a)\<lparr>work_items :=
                 work_items (executor a) @
                 [\<lparr>wi_event = ev, wi_correlation_id = cid, wi_state = PENDING,
                   wi_exception = None\<rparr>]\<rparr>,
              current_task := Some (length (work_items (executor a)))\<rparr>)
         \<and> handle_event handler (snd (handle_event_as_thread a ev cid))
             (wi_event (work_items (executor (snd (handle_event_as_thread a ev cid)))
                ! length (work_items (executor a))))
             (wi_correlation_id
                (work_items (executor (snd (handle_event_as_thread a ev cid)))
                ! length (work_items (executor a))))
           = handler (agent_context a) ev cid"
  using assms
  by (simp add: handle_event_as_thread_def submit_task_def submit_def new_work_item_def
      handle_event_def)

theorem admitted_dispatch_submits_one_task_witness:
  "can_accept_new_task example_agent
   \<and> handle_event_as_thread example_agent ''bad'' ''c1'' =
       (Inr (),
        example_agent
          \<lparr>executor :=
             \<lparr>max_workers = 1,
              work_items =
                [\<lparr>wi_event = ''bad'', wi_correlation_id = ''c1'', wi_state = PENDING,
                  wi_exception = None\<rparr>]\<rparr>,
           current_task := Some 0\<rparr>)
   \<and> handle_event example_handler (snd (handle_event_as_thread example_agent ''bad'' ''c1''))
         ''bad'' ''c1''
       = Some (OtherError ''handler failed'')"
proof -
  have idle: "can_accept_new_task example_agent"
    by (simp add: can_accept_new_task_def example_agent_def)
  from idle
    admitted_dispatch_submits_one_task [OF idle, of "''bad''" "''c1''" example_handler]
  show ?thesis by (simp add: example_agent_def example_handler_def handle_event_def)
qed

text \<open>
  C9. A freshly constructed agent holds no future and its executor has no work item; the
  admission check succeeds, and the first event dispatched to it is accepted.
\<close>

theorem fresh_agent_accepts_first_event:
  assumes "init amqp_dsn environ get_context = (Inr a, eff)"
  shows "current_task a = None \<and> work_items (executor a) = [] \<and> can_accept_new_task a
         \<and> fst (handle_event_as_thread a ev cid) = Inr ()
         \<and> current_task (snd (handle_event_as_thread a ev cid)) = Some 0"
proof -
  from assms have "current_task a = None \<and> work_items (executor a) = []"
    by (auto simp: init_def split: sum.splits)
  then show ?thesis
    by (simp add: handle_event_as_thread_def can_accept_new_task_def submit_task_def
        submit_def)
qed

theorem fresh_agent_accepts_first_event_witness:
  "init (\<lambda>u. True) example_environ (Inr ''ctx'') = (Inr example_agent, example_init_effects)
   \<and> current_task example_agent = None \<and> can_accept_new_task example_agent
   \<and> fst (handle_event_as_thread example_agent ''e1'' ''c1'') = Inr ()"
  using example_init fresh_agent_accepts_first_event [OF example_init, of "''e1''" "''c1''"]
  by simp

text \<open>
  C4. Once the held future is done, the admission check succeeds and the next event is
  accepted. A running work item that the worker finishes is done whatever the handler did:
  the handler's exception, if any, is stored in the future, and the next admission check
  succeeds.
\<close>

theorem completed_handle_frees_slot:
  assumes "current_task a = Some h"
  shows "(future_done (executor a) h \<longrightarrow>
            can_accept_new_task a \<and> fst (handle_event_as_thread a ev cid) = Inr ())
         \<and> (h < length (work_items (executor a))
              \<and> wi_state (work_items (executor a) ! h) = RUNNING \<longrightarrow>
            future_done (executor (worker_finish handler a h)) h
            \<and> wi_exception (work_items (executor (worker_finish handler a h)) ! h) =
                handler (agent_context a) (wi_event (work_items (executor a) ! h))
                  (wi_correlation_id (work_items (executor a) ! h))
            \<and> can_accept_new_task (worker_finish handler a h)
            \<and> fst (handle_event_as_thread (worker_finish handler a h) ev cid) = Inr ())"
proof -
  have done_accepts:
    "can_accept_new_task b \<and> fst (handle_event_as_thread b ev cid) = Inr ()"
    if "current_task b = Some h" and "future_done (executor b) h" for b :: "('a, 'b) gx_agent"
    using that by (simp add: can_accept_new_task_def handle_event_as_thread_def)
  have finished:
    "current_task (worker_finish handler a h) = Some h
     \<and> future_done (executor (worker_finish handler a h)) h
     \<and> wi_exception (work_items (executor (worker_finish handler a h)) ! h) =
         handler (agent_context a) (wi_event (work_items (executor a) ! h))
           (wi_correlation_id (work_items (executor a) ! h))"
    if "h < length (work_items (executor a))"
      and "wi_state (work_items (executor a) ! h) = RUNNING"
    using that assms
    by (simp add: worker_finish_def Let_def future_done_def handle_event_def)
  from done_accepts [of a] done_accepts [of "worker_finish handler a h"] finished assms
  show ?thesis by blast
qed

theorem completed_handle_frees_slot_witness:
  "current_task busy_agent = Some 0
   \<and> wi_state (work_items (executor busy_agent) ! 0) = RUNNING
   \<and> wi_exception (work_items (executor (worker_finish example_handler busy_agent 0)) ! 0)
       = Some (OtherError ''handler failed'')
   \<and> future_done (executor (worker_finish example_handler busy_agent 0)) 0
   \<and> can_accept_new_task (worker_finish example_handler busy_agent 0)
   \<and> fst (handle_event_as_thread (worker_finish example_handler busy_agent 0) ''e3'' ''c3'')
       = Inr ()"
  using busy_agent_slot
    completed_handle_frees_slot [OF busy_agent_slot(1), of "''e3''" "''c3''" example_handler]
  by (simp add: example_handler_def)

text \<open>
  C8. When \<open>BROKER_URL\<close> or \<open>GE_CLOUD_ORGANIZATION_ID\<close> is absent from the environment,
  construction raises \<open>GXAgentError\<close> naming the first missing variable. It has then only
  printed its first line: no context was loaded and no agent exists, so no client and no
  subscriber is ever constructed.
\<close>

theorem missing_configuration_fails_construction:
  assumes "environ ''BROKER_URL'' = None \<or> environ ''GE_CLOUD_ORGANIZATION_ID'' = None"
  shows "(init amqp_dsn environ get_context :: (exn + ('c, 'e) gx_agent) \<times> effect list) =
           (Inl (GXAgentError
              (if environ ''BROKER_URL'' = None
               then ''Missing required environment variable: BROKER_URL''
               else ''Missing required environment variable: GE_CLOUD_ORGANIZATION_ID'')),
            [Print ''Initializing GX-Agent''])"
proof -
  have "get_config_from_env amqp_dsn environ =
          Inl (GXAgentError
              (if environ ''BROKER_URL'' = None
               then ''Missing required environment variable: BROKER_URL''
               else ''Missing required environment variable: GE_CLOUD_ORGANIZATION_ID''))"
    using assms by (auto simp: get_config_from_env_def split: option.splits)
  then show ?thesis by (simp add: init_def)
qed

theorem missing_configuration_fails_construction_witness:
  "[''GE_CLOUD_ORGANIZATION_ID'' \<mapsto> ''org''] ''BROKER_URL'' = None
   \<and> (init (\<lambda>u. True) [''GE_CLOUD_ORGANIZATION_ID'' \<mapsto> ''org''] (Inr ''ctx'')
        :: (exn + (string, string) gx_agent) \<times> effect list) =
       (Inl (GXAgentError ''Missing required environment variable: BROKER_URL''),
        [Print ''Initializing GX-Agent''])
   \<and> [''BROKER_URL'' \<mapsto> ''amqp://broker''] ''GE_CLOUD_ORGANIZATION_ID'' = None
   \<and> (init (\<lambda>u. True) [''BROKER_URL'' \<mapsto> ''amqp://broker''] (Inr ''ctx'')
        :: (exn + (string, string) gx_agent) \<times> effect list) =
       (Inl (GXAgentError
          ''Missing required environment variable: GE_CLOUD_ORGANIZATION_ID''),
        [Print ''Initializing GX-Agent''])"
proof -
  have a: "[''GE_CLOUD_ORGANIZATION_ID'' \<mapsto> ''org''] ''BROKER_URL'' = None" by simp
  have b: "[''BROKER_URL'' \<mapsto> ''amqp://broker''] ''GE_CLOUD_ORGANIZATION_ID'' = None" by simp
  from a b
    missing_configuration_fails_construction
      [of "[''GE_CLOUD_ORGANIZATION_ID'' \<mapsto> ''org'']" "\<lambda>u. True" "Inr ''ctx''"]
    missing_configuration_fails_construction
      [of "[''BROKER_URL'' \<mapsto> ''amqp://broker'']" "\<lambda>u. True" "Inr ''ctx''"]
  show ?thesis by simp
qed

section \<open>At most one event under execution\<close>

lemma first_pending_Some:
  "first_pending ws = Some i \<Longrightarrow> i < length ws \<and> wi_state (ws ! i) = PENDING"
proof (induction ws arbitrary: i)
  case Nil
  then show ?case by simp
next
  case (Cons w ws)
  show ?case
  proof (cases "wi_state w = PENDING")
    case True
    with Cons.prems show ?thesis by simp
  next
    case False
    with Cons.prems obtain j where j: "first_pending ws = Some j" "i = Suc j"
      by auto
    with Cons.IH [of j] show ?thesis by simp
  qed
qed

lemma worker_step_frame:
  "current_task (worker_step handler w a) = current_task a"
  "max_workers (executor (worker_step handler w a)) = max_workers (executor a)"
  "length (work_items (executor (worker_step handler w a))) = length (work_items (executor a))"
  by (cases w; simp add: worker_start_def worker_finish_def Let_def split: option.splits)+

lemma worker_step_done_stable:
  assumes "future_done (executor a) h"
  shows "future_done (executor (worker_step handler w a)) h"
proof (cases w)
  case Start
  show ?thesis
  proof (cases "first_pending (work_items (executor a))")
    case None
    with Start assms show ?thesis by (simp add: worker_start_def)
  next
    case (Some i)
    from first_pending_Some [OF Some] assms have "i \<noteq> h"
      by (auto simp: future_done_def)
    with Start Some assms show ?thesis
      by (simp add: worker_start_def future_done_def)
  qed
next
  case (Finish i)
  with assms show ?thesis
    by (cases "i = h") (auto simp: worker_finish_def future_done_def Let_def)
qed

lemma worker_start_cases:
  "worker_start ex = ex \<or>
   (\<exists>i. i < length (work_items ex) \<and> wi_state (work_items ex ! i) = PENDING \<and>
        worker_start ex =
          ex\<lparr>work_items := (work_items ex)[i := (work_items ex ! i)\<lparr>wi_state := RUNNING\<rparr>]\<rparr>)"
proof (cases "first_pending (work_items ex)")
  case None
  then show ?thesis by (simp add: worker_start_def)
next
  case (Some i)
  from first_pending_Some [OF Some] Some show ?thesis
    by (cases "running_count ex < max_workers ex") (auto simp: worker_start_def)
qed

lemma update_invariant:
  assumes inv: "slot_invariant a"
    and i: "i < length (work_items (executor a))"
    and w: "wi_state w = FINISHED \<or> wi_state (work_items (executor a) ! i) \<noteq> FINISHED"
  shows "slot_invariant (a\<lparr>executor := (executor a)\<lparr>work_items := (work_items (executor a))[i := w]\<rparr>\<rparr>)"
proof -
  let ?ws = "work_items (executor a)"
  have "current_task a = Some k"
    if k: "k < length ?ws" and nf: "wi_state (?ws[i := w] ! k) \<noteq> FINISHED" for k
  proof (cases "k = i")
    case True
    with nf i have "wi_state w \<noteq> FINISHED" by simp
    with w have "wi_state (?ws ! i) \<noteq> FINISHED" by simp
    with inv i True show ?thesis by (simp add: slot_invariant_def)
  next
    case False
    with nf have "wi_state (?ws ! k) \<noteq> FINISHED" by simp
    with inv k show ?thesis by (simp add: slot_invariant_def)
  qed
  moreover from inv have "max_workers (executor a) = 1" by (simp add: slot_invariant_def)
  ultimately show ?thesis by (simp add: slot_invariant_def)
qed

lemma worker_step_invariant:
  assumes "slot_invariant a"
  shows "slot_invariant (worker_step handler w a)"
proof (cases w)
  case Start
  from worker_start_cases [of "executor a"] show ?thesis
  proof
    assume "worker_start (executor a) = executor a"
    with Start assms show ?thesis by simp
  next
    assume "\<exists>i. i < length (work_items (executor a)) \<and>
        wi_state (work_items (executor a) ! i) = PENDING \<and>
        worker_start (executor a) =
          (executor a)\<lparr>work_items := (work_items (executor a))
             [i := (work_items (executor a) ! i)\<lparr>wi_state := RUNNING\<rparr>]\<rparr>"
    then obtain i where i: "i < length (work_items (executor a))"
      and p: "wi_state (work_items (executor a) ! i) = PENDING"
      and eq: "worker_start (executor a) =
          (executor a)\<lparr>work_items := (work_items (executor a))
             [i := (work_items (executor a) ! i)\<lparr>wi_state := RUNNING\<rparr>]\<rparr>"
      by blast
    from p have "wi_state (work_items (executor a) ! i) \<noteq> FINISHED" by simp
    with update_invariant [OF assms i, of "(work_items (executor a) ! i)\<lparr>wi_state := RUNNING\<rparr>"]
    show ?thesis using Start eq by simp
  qed
next
  case (Finish i)
  show ?thesis
  proof (cases "i < length (work_items (executor a)) \<and>
      wi_state (work_items (executor a) ! i) = RUNNING")
    case True
    then have i: "i < length (work_items (executor a))" by simp
    show ?thesis
      using Finish True
        update_invariant [OF assms i, of "(work_items (executor a) ! i)\<lparr>wi_state := FINISHED,
          wi_exception := handle_event handler a (wi_event (work_items (executor a) ! i))
            (wi_correlation_id (work_items (executor a) ! i))\<rparr>"]
      by (simp add: worker_finish_def Let_def)
  next
    case False
    then have "worker_finish handler a i = a"
      unfolding worker_finish_def Let_def by (rule if_not_P)
    with Finish assms show ?thesis by simp
  qed
qed

lemma submit_task_invariant:
  assumes "slot_invariant a" and "can_accept_new_task a"
  shows "slot_invariant (submit_task a ev cid)"
proof -
  have fin: "wi_state (work_items (executor a) ! i) = FINISHED"
    if "i < length (work_items (executor a))" for i
  proof (rule ccontr)
    assume "wi_state (work_items (executor a) ! i) \<noteq> FINISHED"
    with assms(1) that have "current_task a = Some i"
      by (simp add: slot_invariant_def)
    with assms(2) have "wi_state (work_items (executor a) ! i) = FINISHED"
      by (simp add: can_accept_new_task_def future_done_def)
    with \<open>wi_state (work_items (executor a) ! i) \<noteq> FINISHED\<close> show False by simp
  qed
  show ?thesis
    using assms(1) fin
    by (auto simp: slot_invariant_def submit_task_def submit_def nth_append less_Suc_eq)
qed

lemma filter_at_most_one:
  assumes "\<forall>i < length xs. P (xs ! i) \<longrightarrow> c = Some i"
  shows "length (filter P xs) \<le> 1"
proof -
  have "{i. i < length xs \<and> P (xs ! i)} \<subseteq> set_option c"
    using assms by auto
  moreover have "finite (set_option c)" "card (set_option c) \<le> 1"
    by (cases c; simp)+
  ultimately have "card {i. i < length xs \<and> P (xs ! i)} \<le> 1"
    by (meson card_mono le_trans)
  then show ?thesis by (simp add: length_filter_conv_card)
qed

lemma running_le_outstanding:
  "running_count ex \<le> outstanding_count ex"
proof -
  have "filter (\<lambda>w. wi_state w = RUNNING) (work_items ex) =
        filter (\<lambda>w. wi_state w = RUNNING) (filter (\<lambda>w. wi_state w \<noteq> FINISHED) (work_items ex))"
    by (auto intro: filter_cong)
  then show ?thesis
    unfolding running_count_def outstanding_count_def
    by (metis length_filter_le)
qed

lemma init_invariant:
  "init amqp_dsn environ get_context = (Inr a, eff) \<Longrightarrow> slot_invariant a"
  by (auto simp: init_def slot_invariant_def split: sum.splits)

lemma worker_steps_frame:
  "current_task (worker_steps handler ws a) = current_task a"
  "length (work_items (executor (worker_steps handler ws a))) = length (work_items (executor a))"
  unfolding worker_steps_def
  by (induction ws arbitrary: a) (simp_all add: worker_step_frame)

lemma worker_steps_done_stable:
  "future_done (executor a) h \<Longrightarrow> future_done (executor (worker_steps handler ws a)) h"
  unfolding worker_steps_def
  by (induction ws arbitrary: a) (simp_all add: worker_step_done_stable)

lemma worker_steps_invariant:
  "slot_invariant a \<Longrightarrow> slot_invariant (worker_steps handler ws a)"
  unfolding worker_steps_def
  by (induction ws arbitrary: a) (simp_all add: worker_step_invariant)

lemma worker_steps_can_accept_stable:
  "can_accept_new_task a \<Longrightarrow> can_accept_new_task (worker_steps handler ws a)"
  by (cases "current_task a")
    (simp_all add: can_accept_new_task_def worker_steps_frame worker_steps_done_stable)

lemma agent_step_invariant:
  "slot_invariant a \<Longrightarrow> slot_invariant (agent_step handler act a)"
  by (cases act)
    (simp_all add: worker_step_invariant worker_steps_invariant submit_task_invariant
      worker_steps_can_accept_stable)

lemma run_trace_invariant:
  "slot_invariant a \<Longrightarrow> slot_invariant (run_trace handler acts a)"
  unfolding run_trace_def
  by (induction acts arbitrary: a) (simp_all add: agent_step_invariant)

lemma invariant_outstanding:
  assumes "slot_invariant a"
  shows "outstanding_count (executor a) \<le> 1"
  unfolding outstanding_count_def
  by (rule filter_at_most_one [where c = "current_task a"])
    (use assms in \<open>simp add: slot_invariant_def\<close>)

lemma deliver_grows_iff_admitted:
  "(length (work_items (executor (agent_step handler (Deliver ev cid mid) a))) \<noteq>
    length (work_items (executor a))) = can_accept_new_task a"
  by (simp add: worker_steps_frame submit_task_def submit_def)

text \<open>
  The scenario of three deliveries, computed: the first event is admitted and fails in the
  handler, the second is rejected while the first runs, and the third is admitted once the
  first is done.
\<close>

lemma example_trace_run:
  "run_trace example_handler example_trace example_agent =
     example_agent
       \<lparr>executor :=
          \<lparr>max_workers = 1,
           work_items =
             [\<lparr>wi_event = ''bad'', wi_correlation_id = ''c1'', wi_state = FINISHED,
               wi_exception = Some (OtherError ''handler failed'')\<rparr>,
              \<lparr>wi_event = ''e3'', wi_correlation_id = ''c3'', wi_state = PENDING,
               wi_exception = None\<rparr>]\<rparr>,
        current_task := Some 1\<rparr>"
  by (simp add: run_trace_def example_trace_def example_agent_def example_handler_def
      can_accept_new_task_def future_done_def submit_task_def submit_def new_work_item_def
      worker_steps_def worker_start_def worker_finish_def running_count_def handle_event_def
      Let_def)

text \<open>
  C1. From a freshly constructed agent, after any sequence of deliveries and worker steps
  (worker steps may also fall between the admission check and the submission), the
  executor still has a single worker, at most one work item is running, and at most one
  is unfinished. A delivery adds a work item exactly when the admission check, on the
  state it reads, reports the held future absent or done.
\<close>

theorem at_most_one_event_under_execution:
  assumes "init amqp_dsn environ get_context = (Inr a0, eff)"
  shows "max_workers (executor (run_trace handler acts a0)) = 1
         \<and> running_count (executor (run_trace handler acts a0)) \<le> 1
         \<and> outstanding_count (executor (run_trace handler acts a0)) \<le> 1
         \<and> (length (work_items (executor
               (agent_step handler (Deliver ev cid mid) (run_trace handler acts a0)))) \<noteq>
             length (work_items (executor (run_trace handler acts a0))))
            = can_accept_new_task (run_trace handler acts a0)"
proof -
  have inv: "slot_invariant (run_trace handler acts a0)"
    using assms by (simp add: init_invariant run_trace_invariant)
  have out: "outstanding_count (executor (run_trace handler acts a0)) \<le> 1"
    using inv by (rule invariant_outstanding)
  have run: "running_count (executor (run_trace handler acts a0)) \<le> 1"
    using out running_le_outstanding [of "executor (run_trace handler acts a0)"] by simp
  from inv have "max_workers (executor (run_trace handler acts a0)) = 1"
    by (simp add: slot_invariant_def)
  with out run deliver_grows_iff_admitted [of handler ev cid mid "run_trace handler acts a0"]
  show ?thesis by blast
qed

theorem at_most_one_event_under_execution_witness:
  "init (\<lambda>u. True) example_environ (Inr ''ctx'') = (Inr example_agent, example_init_effects)
   \<and> max_workers (executor (run_trace example_handler example_trace example_agent)) = 1
   \<and> running_count (executor (run_trace example_handler example_trace example_agent)) \<le> 1
   \<and> outstanding_count (executor (run_trace example_handler example_trace example_agent))
       \<le> 1
   \<and> (length (work_items (executor
         (agent_step example_handler (Deliver ''e4'' ''c4'' [])
            (run_trace example_handler example_trace example_agent)))) \<noteq>
       length (work_items (executor
         (run_trace example_handler example_trace example_agent))))
      = can_accept_new_task (run_trace example_handler example_trace example_agent)"
  using example_init
    at_most_one_event_under_execution [OF example_init, of example_handler example_trace
      "''e4''" "''c4''" "[]"]
  by (rule conjI)

section \<open>The connection lifecycle: facts about \<open>listen\<close> and \<open>run\<close>\<close>

lemma listen_try_client_failed:
  "client_outcome br = Some e \<Longrightarrow>
   listen_try handler br a = (Some e, None, a, [NewClient (broker_url (agent_config a))])"
  by (simp add: listen_try_def)

lemma listen_try_subscriber_failed:
  "client_outcome br = None \<Longrightarrow> subscriber_outcome br = Some e \<Longrightarrow>
   listen_try handler br a =
     (Some e, None, a, [NewClient (broker_url (agent_config a)), NewSubscriber])"
  by (simp add: listen_try_def)

lemma listen_try_consumed:
  "client_outcome br = None \<Longrightarrow> subscriber_outcome br = None \<Longrightarrow>
   listen_try handler br a =
     (consume_outcome br,
      Some (Subscriber (RabbitMQClient (broker_url (agent_config a)))),
      run_trace handler (consume_script br) a,
      [NewClient (broker_url (agent_config a)), NewSubscriber, Print ''GX-Agent is ready.'',
       Consume (organization_id (agent_config a))])"
  by (simp add: listen_try_def Let_def)

lemma listen_result:
  "listen_try handler br a = (raised, sub, a', eff) \<Longrightarrow>
   fst (listen handler br a) =
     (case fst (close_subscriber (close_outcome br) sub) of
        Inl e \<Rightarrow> Inl e
      | Inr u \<Rightarrow> (case fst (listen_except raised) of Some e \<Rightarrow> Inl e | None \<Rightarrow> Inr ()))"
  by (simp add: listen_def case_prod_beta split: sum.splits)

lemma listen_agent:
  "listen_try handler br a = (raised, sub, a', eff) \<Longrightarrow> fst (snd (listen handler br a)) = a'"
  by (simp add: listen_def case_prod_beta)

lemma listen_effects:
  "listen_try handler br a = (raised, sub, a', eff) \<Longrightarrow>
   snd (snd (listen handler br a)) =
     eff @ snd (listen_except raised) @ snd (close_subscriber (close_outcome br) sub)"
  by (simp add: listen_def case_prod_beta)

lemma close_calls_Nil: "close_calls [] = 0"
  by (simp add: close_calls_def)

lemma close_calls_Cons:
  "close_calls (x # xs) = (if x = CloseCall then Suc (close_calls xs) else close_calls xs)"
  by (simp add: close_calls_def)

lemma close_calls_append: "close_calls (xs @ ys) = close_calls xs + close_calls ys"
  by (simp add: close_calls_def)

lemma close_calls_listen_except: "close_calls (snd (listen_except raised)) = 0"
  by (simp add: close_calls_def listen_except_def split: option.splits)

lemma close_calls_close_subscriber:
  "close_calls (snd (close_subscriber closing sub)) = (case sub of None \<Rightarrow> 0 | Some s \<Rightarrow> 1)"
  by (simp add: close_calls_def close_subscriber_def split: option.splits)

lemma run_result: "fst (run handler br a) = fst (listen handler br a)"
  by (simp add: run_def case_prod_beta split: sum.splits)

lemma run_close_calls:
  "close_calls (snd (snd (run handler br a))) = close_calls (snd (snd (listen handler br a)))"
  by (simp add: run_def close_calls_def case_prod_beta split: sum.splits)

lemma listen_except_caught:
  "e = KeyboardInterrupt \<or> is_SubscriberError e \<or> is_ClientError e \<Longrightarrow>
   fst (listen_except (Some e)) = None"
  by (auto simp: listen_except_def)

lemma close_subscriber_result:
  "fst (close_subscriber closing (Some s)) =
     (case closing of
        None \<Rightarrow> Inr ()
      | Some e \<Rightarrow> if is_SubscriberError e then Inr () else Inl e)"
  by (simp add: close_subscriber_def split: option.splits)

lemma example_broker_calls:
  "client_outcome example_broker = None"
  "subscriber_outcome example_broker = None"
  "consume_outcome example_broker = Some KeyboardInterrupt"
  "close_outcome example_broker = Some (SubscriberError ''already closed'')"
  by (simp_all add: example_broker_def)

text \<open>
  C10. The close helper does nothing on an absent subscriber: it returns normally and makes
  no close call. When the client or the subscriber cannot be constructed, \<^verbatim>\<open>_listen\<close>
  therefore makes no close call, leaves the agent as it was, and ends as its
  \<^verbatim>\<open>except\<close> clauses decide: normally for a caught exception, with the construction's
  exception otherwise.
\<close>

theorem close_subscriber_absent_is_safe:
  "close_subscriber closing None = (Inr (), [])
   \<and> (client_outcome br = Some e \<or> (client_outcome br = None \<and> subscriber_outcome br = Some e)
      \<longrightarrow> close_calls (snd (snd (listen handler br a))) = 0
          \<and> fst (listen handler br a) =
              (case fst (listen_except (Some e)) of None \<Rightarrow> Inr () | Some e' \<Rightarrow> Inl e')
          \<and> fst (snd (listen handler br a)) = a)"
proof -
  have absent: "close_subscriber closing None = (Inr (), [])" for closing
    by (simp add: close_subscriber_def)
  have failed: "close_calls (snd (snd (listen handler br a))) = 0
     \<and> fst (listen handler br a) =
         (case fst (listen_except (Some e)) of None \<Rightarrow> Inr () | Some e' \<Rightarrow> Inl e')
     \<and> fst (snd (listen handler br a)) = a"
    if t: "listen_try handler br a = (Some e, None, a, eff)"
      and c: "close_calls eff = 0" for eff
    using listen_result [OF t] listen_agent [OF t] listen_effects [OF t] c
    by (simp add: absent close_calls_append close_calls_listen_except close_calls_Nil)
  have "close_calls [NewClient u] = 0" "close_calls [NewClient u, NewSubscriber] = 0" for u
    by (simp_all add: close_calls_Cons close_calls_Nil)
  with failed listen_try_client_failed [of br e handler a]
    listen_try_subscriber_failed [of br e handler a] absent [of closing]
  show ?thesis by blast
qed

theorem close_subscriber_absent_is_safe_witness:
  "client_outcome refusing_broker = Some (ClientError ''connection refused'')
   \<and> close_subscriber (close_outcome refusing_broker) None = (Inr (), [])
   \<and> close_calls (snd (snd (listen example_handler refusing_broker example_agent))) = 0
   \<and> fst (listen example_handler refusing_broker example_agent) = Inr ()
   \<and> fst (snd (listen example_handler refusing_broker example_agent)) = example_agent"
proof -
  have refused: "client_outcome refusing_broker = Some (ClientError ''connection refused'')"
    by (simp add: refusing_broker_def)
  have caught: "fst (listen_except (Some (ClientError ''connection refused''))) = None"
    by (simp add: listen_except_def)
  from refused caught
    close_subscriber_absent_is_safe [of "close_outcome refusing_broker" refusing_broker
      "ClientError ''connection refused''" example_handler example_agent]
  show ?thesis by simp
qed

text \<open>
  C6, as stated, fails: the close helper catches \<open>SubscriberError\<close> only. A close call
  that raises \<open>ClientError\<close> leaves the helper, and in \<^verbatim>\<open>_listen\<close> it replaces an
  exception that was on its way out of the \<^verbatim>\<open>try\<close> block.
\<close>

theorem close_error_propagates_counterexample:
  "close_subscriber (Some (ClientError ''connection lost''))
     (Some (Subscriber (RabbitMQClient ''amqp://broker''))) =
     (Inl (ClientError ''connection lost''), [CloseCall])
   \<and> fst (listen example_handler
        (example_broker\<lparr>consume_outcome := Some (OtherError ''original cause''),
           close_outcome := None\<rparr>) example_agent) = Inl (OtherError ''original cause'')
   \<and> fst (listen example_handler
        (example_broker\<lparr>consume_outcome := Some (OtherError ''original cause''),
           close_outcome := Some (ClientError ''connection lost'')\<rparr>) example_agent) =
       Inl (ClientError ''connection lost'')"
proof -
  have t: "listen_try example_handler (example_broker\<lparr>consume_outcome := c, close_outcome := d\<rparr>)
             example_agent =
           (c, Some (Subscriber (RabbitMQClient (broker_url (agent_config example_agent)))),
            run_trace example_handler (consume_script example_broker) example_agent,
            [NewClient (broker_url (agent_config example_agent)), NewSubscriber,
             Print ''GX-Agent is ready.'',
             Consume (organization_id (agent_config example_agent))])" for c d
    using listen_try_consumed
      [of "example_broker\<lparr>consume_outcome := c, close_outcome := d\<rparr>" example_handler
        example_agent]
    by (simp add: example_broker_calls)
  have e: "fst (listen_except (Some (OtherError ''original cause''))) =
             Some (OtherError ''original cause'')"
    by (simp add: listen_except_def)
  show ?thesis
    by (simp add: listen_result [OF t] close_subscriber_result e) (simp add: close_subscriber_def)
qed

text \<open>
  C6, amended. The close helper swallows and logs every \<open>SubscriberError\<close> that the close
  call raises, so \<^verbatim>\<open>_listen\<close> ends as it would have with a close call that succeeded. An
  exception of any other class leaves the helper.
\<close>

theorem close_swallows_subscriber_error:
  "close_subscriber (Some (SubscriberError m)) (Some s) =
     (Inr (),
      [CloseCall, Print ''Subscriber encountered an error while closing:'',
       PrintExn (SubscriberError m)])
   \<and> fst (listen handler (br\<lparr>close_outcome := Some (SubscriberError m)\<rparr>) a) =
       fst (listen handler (br\<lparr>close_outcome := None\<rparr>) a)
   \<and> (\<not> is_SubscriberError e \<longrightarrow> close_subscriber (Some e) (Some s) = (Inl e, [CloseCall]))"
proof -
  have one: "close_subscriber (Some (SubscriberError m)) (Some s) =
     (Inr (),
      [CloseCall, Print ''Subscriber encountered an error while closing:'',
       PrintExn (SubscriberError m)])"
    by (simp add: close_subscriber_def)
  have same_try: "listen_try handler (br\<lparr>close_outcome := c\<rparr>) a = listen_try handler br a" for c
    by (simp add: listen_try_def Let_def split: option.splits)
  obtain raised sub a' eff where t: "listen_try handler br a = (raised, sub, a', eff)"
    by (cases "listen_try handler br a") auto
  have two: "fst (listen handler (br\<lparr>close_outcome := Some (SubscriberError m)\<rparr>) a) =
       fst (listen handler (br\<lparr>close_outcome := None\<rparr>) a)"
    using listen_result [of handler "br\<lparr>close_outcome := Some (SubscriberError m)\<rparr>" a raised sub a' eff]
      listen_result [of handler "br\<lparr>close_outcome := None\<rparr>" a raised sub a' eff]
    by (cases sub) (simp_all add: same_try t close_subscriber_def)
  have three: "\<not> is_SubscriberError e \<Longrightarrow> close_subscriber (Some e) (Some s) = (Inl e, [CloseCall])"
    by (simp add: close_subscriber_def)
  from one two three show ?thesis by blast
qed

theorem close_swallows_subscriber_error_witness:
  "\<not> is_SubscriberError (ClientError ''connection lost'')
   \<and> close_subscriber (Some (ClientError ''connection lost''))
        (Some (Subscriber (RabbitMQClient ''amqp://broker''))) =
       (Inl (ClientError ''connection lost''), [CloseCall])
   \<and> close_subscriber (Some (SubscriberError ''already closed''))
        (Some (Subscriber (RabbitMQClient ''amqp://broker''))) =
       (Inr (),
        [CloseCall, Print ''Subscriber encountered an error while closing:'',
         PrintExn (SubscriberError ''already closed'')])"
proof -
  have other: "\<not> is_SubscriberError (ClientError ''connection lost'')" by simp
  from other
    close_swallows_subscriber_error [of "''already closed''"
      "Subscriber (RabbitMQClient ''amqp://broker'')" example_handler example_broker
      example_agent "ClientError ''connection lost''"]
  show ?thesis by simp
qed

text \<open>
  C7, as stated, fails: after an interrupt, a close call that raises \<open>ClientError\<close> makes
  \<^verbatim>\<open>run\<close> raise it.
\<close>

theorem run_raises_close_error_counterexample:
  "client_outcome (example_broker\<lparr>close_outcome := Some (ClientError ''connection lost'')\<rparr>)
     = None
   \<and> subscriber_outcome
       (example_broker\<lparr>close_outcome := Some (ClientError ''connection lost'')\<rparr>) = None
   \<and> consume_outcome
       (example_broker\<lparr>close_outcome := Some (ClientError ''connection lost'')\<rparr>)
       = Some KeyboardInterrupt
   \<and> fst (run example_handler
        (example_broker\<lparr>close_outcome := Some (ClientError ''connection lost'')\<rparr>)
        example_agent) = Inl (ClientError ''connection lost'')"
proof -
  let ?br = "example_broker\<lparr>close_outcome := Some (ClientError ''connection lost'')\<rparr>"
  have c: "client_outcome ?br = None" and s: "subscriber_outcome ?br = None"
    and k: "consume_outcome ?br = Some KeyboardInterrupt"
    by (simp_all add: example_broker_calls)
  note t = listen_try_consumed [OF c s, of example_handler example_agent]
  have "fst (run example_handler ?br example_agent) = Inl (ClientError ''connection lost'')"
    by (simp add: run_result listen_result [OF t] close_subscriber_result)
  with c s k show ?thesis by simp
qed

text \<open>
  C7, amended. When the client and the subscriber were constructed and \<^verbatim>\<open>consume\<close> ends
  with an interrupt, a \<open>SubscriberError\<close> or a \<open>ClientError\<close>, the agent makes exactly one
  close call, and \<^verbatim>\<open>run\<close> returns normally when that call returns or raises
  \<open>SubscriberError\<close>; when it raises anything else, \<^verbatim>\<open>run\<close> raises that exception.
\<close>

theorem shutdown_closes_once_and_returns:
  assumes "client_outcome br = None" and "subscriber_outcome br = None"
    and "consume_outcome br = Some e"
    and "e = KeyboardInterrupt \<or> is_SubscriberError e \<or> is_ClientError e"
  shows "close_calls (snd (snd (run handler br a))) = 1
         \<and> fst (run handler br a) =
             (case close_outcome br of
                None \<Rightarrow> Inr ()
              | Some c \<Rightarrow> if is_SubscriberError c then Inr () else Inl c)"
proof -
  note t = listen_try_consumed [OF assms(1,2), of handler a]
  have "close_calls (snd (snd (run handler br a))) = 1"
    by (simp add: run_close_calls listen_effects [OF t] close_calls_append
        close_calls_listen_except close_calls_close_subscriber close_calls_Cons
        close_calls_Nil)
  moreover have "fst (run handler br a) =
             (case close_outcome br of
                None \<Rightarrow> Inr ()
              | Some c \<Rightarrow> if is_SubscriberError c then Inr () else Inl c)"
    using listen_except_caught [OF assms(4)]
    by (simp add: run_result listen_result [OF t] assms(3) close_subscriber_result
        split: option.splits)
  ultimately show ?thesis by blast
qed

theorem shutdown_closes_once_and_returns_witness:
  "client_outcome example_broker = None \<and> subscriber_outcome example_broker = None
   \<and> consume_outcome example_broker = Some KeyboardInterrupt
   \<and> close_outcome example_broker = Some (SubscriberError ''already closed'')
   \<and> close_calls (snd (snd (run example_handler example_broker example_agent))) = 1
   \<and> fst (run example_handler example_broker example_agent) = Inr ()"
  using example_broker_calls
    shutdown_closes_once_and_returns [OF example_broker_calls(1,2,3), of example_handler
      example_agent]
  by simp

end
